theory Spec2Isabelle
  imports Complex_Main
begin

section \<open>Python values\<close>

text \<open>
  The exceptions that the modelled code can meet. \<open>RequestException\<close> stands for any
  failure of the HTTP fetch, \<open>TwilioException\<close> for any failure of the call-placing
  client, \<open>SQLAlchemyError\<close> for the failure of a commit; the other four are Python's
  built-in exceptions of the same name.
\<close>

datatype exn =
  ValueError | TypeError | OverflowError | ZeroDivisionError
  | RequestException | TwilioException | SQLAlchemyError

text \<open>
  A Python \<open>float\<close>: a finite number, one of the two infinities, or not-a-number.
  Finite values are carried as reals: rounding to the nearest double is not modelled
  (and \<open>0.0\<close> and \<open>-0.0\<close>, which Python compares equal, are one value), but
  overflow to an infinity is. Comparisons follow IEEE 754 as Python does: every
  comparison with \<open>NaN\<close> is false.
\<close>

datatype pyfloat = Fin real | PInf | NInf | NaN

fun fle :: "pyfloat \<Rightarrow> pyfloat \<Rightarrow> bool" where
  "fle NaN _ = False"
| "fle _ NaN = False"
| "fle NInf _ = True"
| "fle _ PInf = True"
| "fle (Fin x) (Fin y) = (x \<le> y)"
| "fle _ _ = False"

fun flt :: "pyfloat \<Rightarrow> pyfloat \<Rightarrow> bool" where
  "flt NaN _ = False"
| "flt _ NaN = False"
| "flt (Fin x) (Fin y) = (x < y)"
| "flt NInf NInf = False"
| "flt PInf PInf = False"
| "flt NInf _ = True"
| "flt _ PInf = True"
| "flt _ _ = False"

definition fgt :: "pyfloat \<Rightarrow> pyfloat \<Rightarrow> bool" where
  "fgt a b = flt b a"

fun feq :: "pyfloat \<Rightarrow> pyfloat \<Rightarrow> bool" where
  "feq NaN _ = False"
| "feq _ NaN = False"
| "feq a b = (a = b)"

text \<open>
  The least magnitude that no longer rounds to a finite double: half-way between the
  largest double \<open>2^1024 - 2^971\<close> and \<open>2^1024\<close>.
\<close>

definition float_overflow_bound :: real where
  "float_overflow_bound = 2 ^ 1024 - 2 ^ 970"

definition round_overflow :: "real \<Rightarrow> pyfloat" where
  "round_overflow q =
     (if float_overflow_bound \<le> q then PInf
      else if q \<le> - float_overflow_bound then NInf
      else Fin q)"

text \<open>
  Python's \<open>a / b\<close> on floats: a zero divisor raises, whatever the dividend; the
  special values follow IEEE 754; a finite quotient too large for a double is an infinity.
\<close>

fun fdiv :: "pyfloat \<Rightarrow> pyfloat \<Rightarrow> exn + pyfloat" where
  "fdiv a (Fin y) =
     (if y = 0 then Inl ZeroDivisionError
      else (case a of
              Fin x \<Rightarrow> Inr (round_overflow (x / y))
            | PInf \<Rightarrow> Inr (if 0 < y then PInf else NInf)
            | NInf \<Rightarrow> Inr (if 0 < y then NInf else PInf)
            | NaN \<Rightarrow> Inr NaN))"
| "fdiv a NaN = Inr NaN"
| "fdiv (Fin x) b = Inr (Fin 0)"
| "fdiv a b = Inr NaN"

text \<open>
  A value decoded from a device's JSON payload: \<open>None\<close>, a bool, an int of any size, a
  float (Python's decoder accepts \<open>NaN\<close> and \<open>Infinity\<close>), a string, a list or a dict.
\<close>

datatype pyval =
  PyNone | PyBool bool | PyInt int | PyFloat pyfloat | PyStr string
  | PyList "pyval list" | PyDict "(string \<times> pyval) list"

text \<open>
  The built-in \<open>float(v)\<close>. Parsing a string is Python's own; it is the parameter
  \<open>float_of_str\<close>, with \<open>None\<close> where \<open>float\<close> raises \<open>ValueError\<close>. An int is
  converted unless it is out of the double range, where \<open>float\<close> raises
  \<open>OverflowError\<close>.
\<close>

fun py_float :: "(string \<Rightarrow> pyfloat option) \<Rightarrow> pyval \<Rightarrow> exn + pyfloat" where
  "py_float float_of_str PyNone = Inl TypeError"
| "py_float float_of_str (PyBool b) = Inr (Fin (if b then 1 else 0))"
| "py_float float_of_str (PyInt i) =
     (if float_overflow_bound \<le> \<bar>real_of_int i\<bar> then Inl OverflowError
      else Inr (Fin (real_of_int i)))"
| "py_float float_of_str (PyFloat x) = Inr x"
| "py_float float_of_str (PyStr s) =
     (case float_of_str s of None \<Rightarrow> Inl ValueError | Some x \<Rightarrow> Inr x)"
| "py_float float_of_str (PyList xs) = Inl TypeError"
| "py_float float_of_str (PyDict kvs) = Inl TypeError"

type_synonym raw_data = "string \<rightharpoonup> pyval"

text \<open>\<open>d.get(key, default)\<close>; \<open>d.get(key)\<close> is \<open>dict_get d key PyNone\<close>.\<close>

definition dict_get :: "raw_data \<Rightarrow> string \<Rightarrow> pyval \<Rightarrow> pyval" where
  "dict_get d key dflt = (case d key of None \<Rightarrow> dflt | Some v \<Rightarrow> v)"

section \<open>Data model (models.py, config.py)\<close>

text \<open>
  Timestamps are \<open>datetime\<close> values, modelled as microseconds on the UTC time line.
  The rows of both tables carry \<open>timestamp\<close> and \<open>device_id\<close>. The autoincrement
  primary key \<open>id\<close> is assigned by the database and read by no function modelled here;
  it is left out. A row's position in the table list is its insertion order.
\<close>

definition minutes :: "int \<Rightarrow> int" where
  "minutes m = m * 60000000"

record stamped =
  timestamp :: int
  device_id :: string

text \<open>The dict returned by \<open>normalize_reading\<close>.\<close>

record reading_data = stamped +
  ro :: pyfloat
  rs :: pyfloat
  ratio :: pyfloat
  vout :: pyfloat
  status :: pyval

record SensorReading = reading_data +
  is_alert :: bool

record Alert = stamped +
  alert_type :: string
  ratio_value :: pyfloat
  phone_number :: "string option"
  call_sid :: "string option"
  is_resolved :: bool

record Settings =
  RATIO_FRESH :: pyfloat
  RATIO_WARNING :: pyfloat
  TWILIO_ACCOUNT_SID :: "string option"
  TWILIO_AUTH_TOKEN :: "string option"
  TWILIO_PHONE_NUMBER :: "string option"
  WEBHOOK_URL :: string

text \<open>The defaults of \<open>config.py\<close>.\<close>

definition settings :: Settings where
  "settings =
     \<lparr>RATIO_FRESH = Fin (8 / 10), RATIO_WARNING = Fin (5 / 10),
      TWILIO_ACCOUNT_SID = None, TWILIO_AUTH_TOKEN = None, TWILIO_PHONE_NUMBER = None,
      WEBHOOK_URL = ''https://twilio-call-jxu9.onrender.com/voice''\<rparr>"

text \<open>
  What the code takes from Python's library, from the database driver and from the Twilio
  client, as parameters: string-to-float parsing, the format \<open>{:.3f}\<close>,
  \<open>urllib.parse.quote\<close>, whether the driver can bind a payload value to a \<open>String\<close>
  column (\<open>db_binds\<close>; a dict, for one, cannot be bound), and the behaviour of
  \<open>Client(sid, token).calls.create(to, from_, url)\<close>, which returns the call's sid or
  raises.
\<close>

type_synonym twilio = "string \<Rightarrow> string option \<Rightarrow> string \<Rightarrow> exn + string"

record pylib =
  float_of_str :: "string \<Rightarrow> pyfloat option"
  format_3f :: "pyfloat \<Rightarrow> string"
  quote :: "string \<Rightarrow> exn + string"
  db_binds :: "pyval \<Rightarrow> bool"
  Client :: "string \<Rightarrow> string \<Rightarrow> twilio"

text \<open>
  The state the services act on: the two tables behind the shared session, and a log
  of the invocations of \<open>send_voice_alert\<close> (recipient and context text), which the
  source does not keep but which records whether the notifier was invoked. The Redis
  cache written by \<open>save_reading\<close> is read by no function modelled here and is left
  out. The database and the cache are taken to be reachable: a commit fails only when
  the driver cannot bind a value of the row. The columns of an alert, and those of a
  reading apart from \<open>status\<close>, hold floats, strings, timestamps and \<open>None\<close>, which
  are always bound; \<open>status\<close> holds whatever the payload carried.
\<close>

record world =
  alerts :: "Alert list"
  readings :: "SensorReading list"
  notifier_log :: "(string \<times> string) list"

section \<open>Sensor service (services/sensor\_service.py)\<close>

text \<open>
  \<open>safe_float\<close>, the local function of \<open>normalize_reading\<close>: \<open>None\<close> gives the
  default; \<open>ValueError\<close> and \<open>TypeError\<close> are caught and give the default; any other
  exception of \<open>float\<close> leaves the function.
\<close>

definition safe_float :: "pylib \<Rightarrow> pyval \<Rightarrow> pyfloat \<Rightarrow> exn + pyfloat" where
  "safe_float lib v dflt =
     (if v \<noteq> PyNone then
        (case py_float (float_of_str lib) v of
           Inr x \<Rightarrow> Inr x
         | Inl ValueError \<Rightarrow> Inr dflt
         | Inl TypeError \<Rightarrow> Inr dflt
         | Inl e \<Rightarrow> Inl e)
      else Inr dflt)"

text \<open>
  \<open>normalize_reading\<close>; \<open>now\<close> is the value of \<open>datetime.utcnow()\<close>. The fields
  are evaluated in the source's order and the first exception leaves the function.
\<close>

definition normalize_reading ::
  "pylib \<Rightarrow> raw_data \<Rightarrow> string \<Rightarrow> int \<Rightarrow> exn + reading_data" where
  "normalize_reading lib raw dev now =
     (case safe_float lib (dict_get raw ''Ro'' (PyFloat (Fin 0))) (Fin 0) of
        Inl e \<Rightarrow> Inl e
      | Inr ro' \<Rightarrow>
     (case safe_float lib (dict_get raw ''Rs'' (PyFloat (Fin 0))) (Fin 0) of
        Inl e \<Rightarrow> Inl e
      | Inr rs' \<Rightarrow>
     (case safe_float lib (dict_get raw ''ratio'' PyNone) (Fin 0) of
        Inl e \<Rightarrow> Inl e
      | Inr ratio0 \<Rightarrow>
     (case (if feq ratio0 (Fin 0) \<and> fgt ro' (Fin 0) then fdiv rs' ro' else Inr ratio0) of
        Inl e \<Rightarrow> Inl e
      | Inr ratio' \<Rightarrow>
     (case safe_float lib (dict_get raw ''Vout'' (PyFloat (Fin 0))) (Fin 0) of
        Inl e \<Rightarrow> Inl e
      | Inr vout' \<Rightarrow>
          Inr \<lparr>timestamp = now, device_id = dev, ro = ro', rs = rs', ratio = ratio',
               vout = vout', status = dict_get raw ''status'' (PyStr '''')\<rparr>)))))"

text \<open>
  \<open>save_reading\<close>: the row is built with its flag and committed. When the driver
  cannot bind the row's \<open>status\<close> the commit raises and nothing is stored; otherwise
  the row is appended to the table and returned.
\<close>

definition save_reading ::
  "pylib \<Rightarrow> Settings \<Rightarrow> world \<Rightarrow> reading_data \<Rightarrow> exn + SensorReading \<times> world" where
  "save_reading lib st w reading_data =
     (let is_alert' = fle (ratio reading_data) (RATIO_WARNING st);
          reading = \<lparr>timestamp = timestamp reading_data, device_id = device_id reading_data,
                     ro = ro reading_data, rs = rs reading_data, ratio = ratio reading_data,
                     vout = vout reading_data, status = status reading_data,
                     is_alert = is_alert'\<rparr>
      in if db_binds lib (status reading_data)
         then Inr (reading, w\<lparr>readings := readings w @ [reading]\<rparr>)
         else Inl SQLAlchemyError)"

section \<open>Alert service (services/alert\_service.py)\<close>

text \<open>Python's truth value of an optional string: \<open>None\<close> and \<open>""\<close> are false.\<close>

definition truthy :: "string option \<Rightarrow> bool" where
  "truthy s = (case s of None \<Rightarrow> False | Some x \<Rightarrow> x \<noteq> [])"

record AlertService =
  twilio_client :: "twilio option"

text \<open>\<open>AlertService.__init__\<close>: the client exists only when both credentials are set.\<close>

definition AlertService_init :: "pylib \<Rightarrow> Settings \<Rightarrow> AlertService" where
  "AlertService_init lib st =
     \<lparr>twilio_client =
        (case TWILIO_ACCOUNT_SID st of
           None \<Rightarrow> None
         | Some sid \<Rightarrow>
             (case TWILIO_AUTH_TOKEN st of
                None \<Rightarrow> None
              | Some token \<Rightarrow>
                  if sid \<noteq> [] \<and> token \<noteq> [] then Some (Client lib sid token) else None))\<rparr>"

text \<open>
  \<open>should_send_alert\<close>: no unresolved alert of this device and type has a timestamp
  in the cooldown window that ends at \<open>now\<close>.
\<close>

definition should_send_alert :: "world \<Rightarrow> int \<Rightarrow> string \<Rightarrow> string \<Rightarrow> bool" where
  "should_send_alert w now dev atype =
     (let cooldown_minutes = (if atype = ''spoiled'' then 30 else 60);
          since = now - minutes cooldown_minutes;
          recent_alert =
            List.find (\<lambda>a. device_id a = dev \<and> alert_type a = atype \<and> since \<le> timestamp a
                            \<and> is_resolved a = False) (alerts w)
      in recent_alert = None)"

text \<open>
  \<open>send_voice_alert\<close>: without a client nothing is sent; otherwise every exception of
  the \<open>try\<close> block is caught and gives \<open>None\<close>. The invocation is logged.
\<close>

definition send_voice_alert ::
  "AlertService \<Rightarrow> pylib \<Rightarrow> Settings \<Rightarrow> world \<Rightarrow> string \<Rightarrow> string \<Rightarrow> string \<Rightarrow> pyfloat
     \<Rightarrow> string option \<times> world" where
  "send_voice_alert svc lib st w phone context dev r =
     (let w' = w\<lparr>notifier_log := notifier_log w @ [(phone, context)]\<rparr> in
      case twilio_client svc of
        None \<Rightarrow> (None, w')
      | Some client \<Rightarrow>
          (case quote lib context of
             Inl e \<Rightarrow> (None, w')
           | Inr encoded_context \<Rightarrow>
               (let webhook_url = WEBHOOK_URL st @ ''?context='' @ encoded_context in
                case client phone (TWILIO_PHONE_NUMBER st) webhook_url of
                  Inl e \<Rightarrow> (None, w')
                | Inr sid \<Rightarrow> (Some sid, w'))))"

text \<open>
  \<open>create_alert\<close>: the row is built, the voice alert is sent when a phone number is
  given and \<open>should_send_alert\<close> holds, and the row is appended to the table in either
  case. The clock is read twice in one call, for the row's timestamp and for the start
  of the cooldown window; both readings are taken as the one instant \<open>now\<close>, here
  and in the callers below.
\<close>

definition create_alert ::
  "AlertService \<Rightarrow> pylib \<Rightarrow> Settings \<Rightarrow> world \<Rightarrow> int \<Rightarrow> string \<Rightarrow> string \<Rightarrow> pyfloat
     \<Rightarrow> string option \<Rightarrow> Alert \<times> world" where
  "create_alert svc lib st w now dev atype r phone =
     (let alert = \<lparr>timestamp = now, device_id = dev, alert_type = atype, ratio_value = r,
                   phone_number = phone, call_sid = None, is_resolved = False\<rparr>;
          (alert', w') =
            (case phone of
               None \<Rightarrow> (alert, w)
             | Some p \<Rightarrow>
                 if p \<noteq> [] \<and> should_send_alert w now dev atype then
                   (let context = ''Food spoilage alert for device '' @ dev
                          @ ''. Current ratio is '' @ format_3f lib r @ ''.'';
                        (sid, w1) = send_voice_alert svc lib st w p context dev r
                    in (alert\<lparr>call_sid := sid\<rparr>, w1))
                 else (alert, w))
      in (alert', w'\<lparr>alerts := alerts w' @ [alert']\<rparr>))"

text \<open>
  \<open>resolve_alerts\<close>: the rows the query selects. The filter on the type is added only
  when \<open>alert_type\<close> is true as a Python value.
\<close>

definition selected :: "string \<Rightarrow> string option \<Rightarrow> Alert \<Rightarrow> bool" where
  "selected dev atype a =
     (device_id a = dev \<and> is_resolved a = False
      \<and> (case atype of None \<Rightarrow> True | Some t \<Rightarrow> if t \<noteq> [] then alert_type a = t else True))"

definition resolve_alerts :: "world \<Rightarrow> string \<Rightarrow> string option \<Rightarrow> world" where
  "resolve_alerts w dev atype =
     w\<lparr>alerts := map (\<lambda>a. if selected dev atype a then a\<lparr>is_resolved := True\<rparr> else a) (alerts w)\<rparr>"

section \<open>The scheduled task (tasks.py) and the dashboard (app.py)\<close>

text \<open>
  The block under \<open># Check for alerts\<close> of \<open>collect_device_data\<close>
  (tasks.py, lines 48 to 55).
\<close>

definition tasks_check_alerts ::
  "AlertService \<Rightarrow> pylib \<Rightarrow> Settings \<Rightarrow> world \<Rightarrow> int \<Rightarrow> string \<Rightarrow> pyfloat \<Rightarrow> world" where
  "tasks_check_alerts svc lib st w now dev r =
     (if fle r (RATIO_WARNING st) then snd (create_alert svc lib st w now dev ''spoiled'' r None)
      else if fle r (RATIO_FRESH st) then snd (create_alert svc lib st w now dev ''warning'' r None)
      else resolve_alerts w dev None)"

datatype task_result = Success pyfloat | Error exn

text \<open>
  \<open>collect_device_data\<close>; \<open>fetched\<close> is what \<open>fetch_device_status\<close> returned or
  raised. Every exception is caught and reported in the result.
\<close>

definition collect_device_data ::
  "pylib \<Rightarrow> Settings \<Rightarrow> world \<Rightarrow> int \<Rightarrow> exn + raw_data \<Rightarrow> string \<Rightarrow> task_result \<times> world" where
  "collect_device_data lib st w now fetched dev =
     (let alert_service = AlertService_init lib st in
      case fetched of
        Inl e \<Rightarrow> (Error e, w)
      | Inr raw \<Rightarrow>
          (case normalize_reading lib raw dev now of
             Inl e \<Rightarrow> (Error e, w)
           | Inr normalized \<Rightarrow>
               (case save_reading lib st w normalized of
                  Inl e \<Rightarrow> (Error e, w)
                | Inr (reading, w1) \<Rightarrow>
                    (let r = ratio normalized
                     in (Success r, tasks_check_alerts alert_service lib st w1 now dev r)))))"

text \<open>
  The block under \<open># Check for alerts\<close> of \<open>process_reading\<close> (app.py, lines 74 to
  86); \<open>alert_phone\<close> is \<open>st.session_state.get("alert_phone")\<close>.
\<close>

definition app_check_alerts ::
  "AlertService \<Rightarrow> pylib \<Rightarrow> Settings \<Rightarrow> world \<Rightarrow> int \<Rightarrow> string option \<Rightarrow> string \<Rightarrow> pyfloat
     \<Rightarrow> world" where
  "app_check_alerts svc lib st w now alert_phone dev r =
     (if fle r (RATIO_WARNING st) then
        (if truthy alert_phone \<and> should_send_alert w now dev ''spoiled''
         then snd (create_alert svc lib st w now dev ''spoiled'' r alert_phone)
         else w)
      else if fle r (RATIO_FRESH st) then snd (create_alert svc lib st w now dev ''warning'' r None)
      else resolve_alerts w dev None)"

text \<open>\<open>process_reading\<close>: an exception is logged and raised again.\<close>

definition process_reading ::
  "AlertService \<Rightarrow> pylib \<Rightarrow> Settings \<Rightarrow> world \<Rightarrow> int \<Rightarrow> string option \<Rightarrow> raw_data \<Rightarrow> string
     \<Rightarrow> (exn + reading_data) \<times> world" where
  "process_reading svc lib st w now alert_phone raw dev =
     (case normalize_reading lib raw dev now of
        Inl e \<Rightarrow> (Inl e, w)
      | Inr normalized \<Rightarrow>
          (case save_reading lib st w normalized of
             Inl e \<Rightarrow> (Inl e, w)
           | Inr (reading, w1) \<Rightarrow>
               (let r = ratio normalized
                in (Inr normalized, app_check_alerts svc lib st w1 now alert_phone dev r))))"

section \<open>Worked inputs\<close>

text \<open>
  A library instance for the worked examples: it parses two strings, formats every ratio
  alike, encodes nothing, binds every value but a list and a dict, and its Twilio client
  always places the call.
\<close>

definition example_lib :: pylib where
  "example_lib =
     \<lparr>float_of_str =
        (\<lambda>s. if s = ''nan'' then Some NaN
             else if s = ''0.5'' then Some (Fin (1 / 2)) else None),
      format_3f = (\<lambda>x. ''0.400''),
      quote = (\<lambda>s. Inr s),
      db_binds = (\<lambda>v. case v of PyList xs \<Rightarrow> False | PyDict kvs \<Rightarrow> False | _ \<Rightarrow> True),
      Client = (\<lambda>sid token to from url. Inr ''CA01'')\<rparr>"

definition empty_world :: world where
  "empty_world = \<lparr>alerts = [], readings = [], notifier_log = []\<rparr>"

definition example_alert :: Alert where
  "example_alert =
     \<lparr>timestamp = 0, device_id = ''esp32_001'', alert_type = ''spoiled'',
      ratio_value = Fin (4 / 10), phone_number = None, call_sid = None, is_resolved = False\<rparr>"

definition other_alert :: Alert where
  "other_alert =
     \<lparr>timestamp = 0, device_id = ''esp32_002'', alert_type = ''warning'',
      ratio_value = Fin (6 / 10), phone_number = None, call_sid = None, is_resolved = False\<rparr>"

definition example_world :: world where
  "example_world = \<lparr>alerts = [example_alert, other_alert], readings = [], notifier_log = []\<rparr>"

definition example_service :: AlertService where
  "example_service = \<lparr>twilio_client = Some (Client example_lib ''AC01'' ''token'')\<rparr>"

text \<open>A service whose client fails for one number and places the call for any other.\<close>

definition flaky_service :: AlertService where
  "flaky_service =
     \<lparr>twilio_client =
        Some (\<lambda>to from url. if to = ''+15550100'' then Inl TwilioException else Inr ''CA02'')\<rparr>"

text \<open>The defaults with the warning threshold raised above the fresh threshold.\<close>

definition swapped_settings :: Settings where
  "swapped_settings = settings\<lparr>RATIO_WARNING := Fin (9 / 10)\<rparr>"

text \<open>A float that is a number, not an infinity, and not below zero.\<close>

definition finite_nonneg :: "pyfloat \<Rightarrow> bool" where
  "finite_nonneg x =
     (case x of Fin q \<Rightarrow> 0 \<le> q | PInf \<Rightarrow> False | NInf \<Rightarrow> False | NaN \<Rightarrow> False)"

section \<open>Facts about floats\<close>

lemma flt_not_fle: "flt a b \<Longrightarrow> \<not> fle b a"
  by (cases a; cases b) auto

lemma fle_total: "a \<noteq> NaN \<Longrightarrow> b \<noteq> NaN \<Longrightarrow> fle a b \<or> flt b a"
  by (cases a; cases b) auto

lemma fle_trans: "fle a b \<Longrightarrow> fle b c \<Longrightarrow> fle a c"
  by (cases a; cases b; cases c) auto

lemma fle_not_NaN: "fle a b \<Longrightarrow> a \<noteq> NaN \<and> b \<noteq> NaN"
  by (cases a; cases b) auto

lemma float_overflow_bound_pos: "0 < float_overflow_bound"
proof -
  have "(2::real) ^ 970 < 2 ^ 1024" by (rule power_strict_increasing) simp_all
  then show ?thesis by (simp add: float_overflow_bound_def)
qed

lemma float_overflow_bound_big: "2 ^ 64 \<le> float_overflow_bound"
proof -
  have "(2::real) ^ 64 \<le> 2 ^ 970" by (rule power_increasing) simp_all
  moreover have "(2::real) ^ 970 + 2 ^ 970 \<le> 2 ^ 1024"
  proof -
    have "(2::real) ^ 970 + 2 ^ 970 = 2 ^ 971" by simp
    also have "\<dots> \<le> 2 ^ 1024" by (rule power_increasing) simp_all
    finally show ?thesis .
  qed
  ultimately show ?thesis by (simp add: float_overflow_bound_def)
qed

lemma round_overflow_small: "\<bar>q\<bar> < 2 ^ 64 \<Longrightarrow> round_overflow q = Fin q"
  using float_overflow_bound_big by (simp add: round_overflow_def abs_less_iff)

lemma fdiv_positive: "fgt b (Fin 0) \<Longrightarrow> \<exists>q. fdiv a b = Inr q"
  by (cases b; cases a) (auto simp: fgt_def)

lemma feq_zero: "feq x (Fin 0) \<Longrightarrow> x = Fin 0"
  by (cases x) auto

section \<open>Facts about the services\<close>

lemma safe_float_small_int:
  "\<bar>i\<bar> < 2 ^ 64 \<Longrightarrow> safe_float lib (PyInt i) d = Inr (Fin (real_of_int i))"
proof -
  assume a: "\<bar>i\<bar> < 2 ^ 64"
  have "(2::real) ^ 64 \<le> 2 ^ 970" by (rule power_increasing) simp_all
  moreover have "(2::real) ^ 970 + 2 ^ 970 \<le> 2 ^ 1024"
  proof -
    have "(2::real) ^ 970 + 2 ^ 970 = 2 ^ 971" by simp
    also have "\<dots> \<le> 2 ^ 1024" by (rule power_increasing) simp_all
    finally show ?thesis .
  qed
  moreover have "\<bar>real_of_int i\<bar> < 2 ^ 64"
    using a by (metis of_int_abs of_int_less_iff of_int_numeral of_int_power)
  ultimately have "\<not> float_overflow_bound \<le> \<bar>real_of_int i\<bar>"
    by (simp add: float_overflow_bound_def)
  then show ?thesis by (simp add: safe_float_def)
qed

text \<open>
  The normalizer can fail in one way only: \<open>OverflowError\<close>, from an int out of the
  double range.
\<close>

lemma safe_float_error: "safe_float lib v d = Inl e \<Longrightarrow> e = OverflowError"
  by (cases v) (auto simp: safe_float_def split: option.splits if_splits)

lemma normalize_reading_error:
  "normalize_reading lib raw dev now = Inl e \<Longrightarrow> e = OverflowError"
proof -
  assume a: "normalize_reading lib raw dev now = Inl e"
  have d: "(if feq x (Fin 0) \<and> fgt y (Fin 0) then fdiv z y else Inr x) \<noteq> Inl e'"
    for x y z e'
    using fdiv_positive [of y z] by auto
  show ?thesis
    using a safe_float_error d
    unfolding normalize_reading_def
    by (auto split: sum.splits)
qed

lemma resolve_all_map:
  "alerts (resolve_alerts w dev None)
     = map (\<lambda>a. if device_id a = dev then a\<lparr>is_resolved := True\<rparr> else a) (alerts w)"
  by (auto simp: resolve_alerts_def selected_def)

lemma resolve_alerts_other: "notifier_log (resolve_alerts w dev atype) = notifier_log w"
  "readings (resolve_alerts w dev atype) = readings w"
  by (simp_all add: resolve_alerts_def)

lemma send_voice_alert_world:
  "alerts (snd (send_voice_alert svc lib st w p c dev r)) = alerts w"
  "readings (snd (send_voice_alert svc lib st w p c dev r)) = readings w"
  "notifier_log (snd (send_voice_alert svc lib st w p c dev r)) = notifier_log w @ [(p, c)]"
  by (simp_all add: send_voice_alert_def Let_def split: option.splits sum.splits)

lemma create_alert_appends:
  "alerts (snd (create_alert svc lib st w now dev atype r phone))
     = alerts w @ [fst (create_alert svc lib st w now dev atype r phone)]"
  by (simp add: create_alert_def Let_def send_voice_alert_world split: option.splits prod.splits)
    (metis send_voice_alert_world(1) snd_conv)

lemma create_alert_fields:
  "fst (create_alert svc lib st w now dev atype r phone)\<lparr>call_sid := None\<rparr>
     = \<lparr>timestamp = now, device_id = dev, alert_type = atype, ratio_value = r,
        phone_number = phone, call_sid = None, is_resolved = False\<rparr>"
  by (simp add: create_alert_def Let_def split: option.splits prod.splits)

lemma create_alert_no_phone:
  "\<not> truthy phone \<Longrightarrow>
     create_alert svc lib st w now dev atype r phone =
       (\<lparr>timestamp = now, device_id = dev, alert_type = atype, ratio_value = r,
         phone_number = phone, call_sid = None, is_resolved = False\<rparr>,
        w\<lparr>alerts := alerts w @ [\<lparr>timestamp = now, device_id = dev, alert_type = atype,
             ratio_value = r, phone_number = phone, call_sid = None, is_resolved = False\<rparr>]\<rparr>)"
  by (simp add: create_alert_def truthy_def Let_def split: option.splits)

lemma create_alert_suppressed:
  "\<not> should_send_alert w now dev atype \<Longrightarrow>
     create_alert svc lib st w now dev atype r phone =
       (\<lparr>timestamp = now, device_id = dev, alert_type = atype, ratio_value = r,
         phone_number = phone, call_sid = None, is_resolved = False\<rparr>,
        w\<lparr>alerts := alerts w @ [\<lparr>timestamp = now, device_id = dev, alert_type = atype,
             ratio_value = r, phone_number = phone, call_sid = None, is_resolved = False\<rparr>]\<rparr>)"
  by (simp add: create_alert_def Let_def split: option.splits)

lemma create_alert_sent:
  "p \<noteq> [] \<Longrightarrow> should_send_alert w now dev atype \<Longrightarrow>
     create_alert svc lib st w now dev atype r (Some p) =
       (let res = send_voice_alert svc lib st w p
                    (''Food spoilage alert for device '' @ dev
                       @ ''. Current ratio is '' @ format_3f lib r @ ''.'') dev r;
            a = \<lparr>timestamp = now, device_id = dev, alert_type = atype, ratio_value = r,
                  phone_number = Some p, call_sid = fst res, is_resolved = False\<rparr>
        in (a, (snd res)\<lparr>alerts := alerts w @ [a]\<rparr>))"
  by (simp add: create_alert_def Let_def split_def send_voice_alert_world)

lemma save_reading_other:
  assumes "save_reading lib st w n = Inr (reading, w1)"
  shows "notifier_log w1 = notifier_log w" and "alerts w1 = alerts w"
  using assms by (auto simp: save_reading_def Let_def split: if_splits)

lemma ball_map_all: "(\<And>b. P (f b)) \<Longrightarrow> \<forall>a \<in> set (map f xs). P a"
  by (induction xs) simp_all

lemma resolved_after_map:
  "\<forall>a \<in> set (map (\<lambda>a::Alert. if device_id a = dev then a\<lparr>is_resolved := True\<rparr> else a) xs).
     device_id a = dev \<longrightarrow> is_resolved a"
  by (rule ball_map_all) simp

lemma tasks_check_alerts_fresh:
  assumes "fle (RATIO_WARNING st) (RATIO_FRESH st)" and "fgt r (RATIO_FRESH st)"
  shows "tasks_check_alerts svc lib st w now dev r = resolve_alerts w dev None"
    and "app_check_alerts svc lib st w now alert_phone dev r = resolve_alerts w dev None"
proof -
  have nf: "\<not> fle r (RATIO_FRESH st)"
    using assms(2) by (simp add: fgt_def flt_not_fle)
  have nw: "\<not> fle r (RATIO_WARNING st)"
  proof
    assume "fle r (RATIO_WARNING st)"
    then have "fle r (RATIO_FRESH st)" using assms(1) by (rule fle_trans)
    with nf show False by simp
  qed
  show "tasks_check_alerts svc lib st w now dev r = resolve_alerts w dev None"
    using nf nw by (simp add: tasks_check_alerts_def)
  show "app_check_alerts svc lib st w now alert_phone dev r = resolve_alerts w dev None"
    using nf nw by (simp add: app_check_alerts_def)
qed

section \<open>Cooldown\<close>

text \<open>
  C1 says that, while an unresolved alert of a kind exists for a device inside the
  kind's cooldown window, a further reading of that kind creates no new alert, so that
  two such readings leave exactly one unresolved record. The scheduled task does
  otherwise: two spoiled readings ten minutes apart leave two unresolved spoiled records.
\<close>

theorem suppression_counterexample:
  "alerts (snd (collect_device_data example_lib settings
       (snd (collect_device_data example_lib settings empty_world 0
               (Inr [''ratio'' \<mapsto> PyFloat (Fin (4 / 10))]) ''esp32_001''))
       (minutes 10) (Inr [''ratio'' \<mapsto> PyFloat (Fin (4 / 10))]) ''esp32_001''))
   = [\<lparr>timestamp = 0, device_id = ''esp32_001'', alert_type = ''spoiled'',
       ratio_value = Fin (4 / 10), phone_number = None, call_sid = None, is_resolved = False\<rparr>,
      \<lparr>timestamp = 600000000, device_id = ''esp32_001'', alert_type = ''spoiled'',
       ratio_value = Fin (4 / 10), phone_number = None, call_sid = None, is_resolved = False\<rparr>]"
  by (simp add: collect_device_data_def normalize_reading_def safe_float_def dict_get_def
      save_reading_def tasks_check_alerts_def create_alert_def settings_def empty_world_def
      example_lib_def AlertService_init_def minutes_def Let_def)

text \<open>
  C1, as the code has it: while an unresolved alert of that kind exists for that device
  inside the cooldown window (30 minutes for spoiled, 60 minutes otherwise),
  \<open>create_alert\<close> does not invoke the notifier and leaves \<open>call_sid\<close> unset, whatever
  the phone number, but it still appends a new unresolved record; the scheduled task
  appends one for every spoiled or warning reading.
\<close>

theorem cooldown_suppresses_call_only:
  assumes "a \<in> set (alerts w)" and "device_id a = dev" and "alert_type a = atype"
    and "is_resolved a = False"
    and "now - minutes (if atype = ''spoiled'' then 30 else 60) \<le> timestamp a"
  shows "notifier_log (snd (create_alert svc lib st w now dev atype r phone)) = notifier_log w
       \<and> fst (create_alert svc lib st w now dev atype r phone)
           = \<lparr>timestamp = now, device_id = dev, alert_type = atype, ratio_value = r,
              phone_number = phone, call_sid = None, is_resolved = False\<rparr>
       \<and> alerts (snd (create_alert svc lib st w now dev atype r phone))
           = alerts w @ [fst (create_alert svc lib st w now dev atype r phone)]
       \<and> (atype = ''spoiled'' \<and> fle r (RATIO_WARNING st) \<longrightarrow>
            alerts (tasks_check_alerts svc lib st w now dev r)
              = alerts w @ [\<lparr>timestamp = now, device_id = dev, alert_type = ''spoiled'',
                   ratio_value = r, phone_number = None, call_sid = None, is_resolved = False\<rparr>])
       \<and> (atype = ''warning'' \<and> \<not> fle r (RATIO_WARNING st) \<and> fle r (RATIO_FRESH st) \<longrightarrow>
            alerts (tasks_check_alerts svc lib st w now dev r)
              = alerts w @ [\<lparr>timestamp = now, device_id = dev, alert_type = ''warning'',
                   ratio_value = r, phone_number = None, call_sid = None, is_resolved = False\<rparr>])"
proof -
  have n: "\<not> truthy None" by (simp add: truthy_def)
  have s: "\<not> should_send_alert w now dev atype"
    using assms by (auto simp: should_send_alert_def Let_def find_None_iff)
  have 1: "notifier_log (snd (create_alert svc lib st w now dev atype r phone)) = notifier_log w"
    using s by (simp add: create_alert_suppressed)
  have 2: "fst (create_alert svc lib st w now dev atype r phone)
           = \<lparr>timestamp = now, device_id = dev, alert_type = atype, ratio_value = r,
              phone_number = phone, call_sid = None, is_resolved = False\<rparr>"
    using s by (simp add: create_alert_suppressed)
  have 4: "atype = ''spoiled'' \<and> fle r (RATIO_WARNING st) \<longrightarrow>
            alerts (tasks_check_alerts svc lib st w now dev r)
              = alerts w @ [\<lparr>timestamp = now, device_id = dev, alert_type = ''spoiled'',
                   ratio_value = r, phone_number = None, call_sid = None, is_resolved = False\<rparr>]"
    by (simp add: tasks_check_alerts_def create_alert_no_phone [OF n])
  have 5: "atype = ''warning'' \<and> \<not> fle r (RATIO_WARNING st) \<and> fle r (RATIO_FRESH st) \<longrightarrow>
            alerts (tasks_check_alerts svc lib st w now dev r)
              = alerts w @ [\<lparr>timestamp = now, device_id = dev, alert_type = ''warning'',
                   ratio_value = r, phone_number = None, call_sid = None, is_resolved = False\<rparr>]"
    by (simp add: tasks_check_alerts_def create_alert_no_phone [OF n])
  show ?thesis
    by (intro conjI) (fact 1, fact 2, rule create_alert_appends, fact 4, fact 5)
qed

theorem cooldown_suppresses_call_only_witness:
  "example_alert \<in> set (alerts example_world)
   \<and> device_id example_alert = ''esp32_001'' \<and> alert_type example_alert = ''spoiled''
   \<and> is_resolved example_alert = False
   \<and> minutes 10 - minutes 30 \<le> timestamp example_alert
   \<and> fle (Fin (4 / 10)) (RATIO_WARNING settings)
   \<and> notifier_log (snd (create_alert example_service example_lib settings example_world
         (minutes 10) ''esp32_001'' ''spoiled'' (Fin (4 / 10)) (Some ''+15550100''))) = []
   \<and> alerts (snd (create_alert example_service example_lib settings example_world
         (minutes 10) ''esp32_001'' ''spoiled'' (Fin (4 / 10)) (Some ''+15550100'')))
       = [example_alert, other_alert,
          \<lparr>timestamp = 600000000, device_id = ''esp32_001'', alert_type = ''spoiled'',
           ratio_value = Fin (4 / 10), phone_number = Some ''+15550100'', call_sid = None,
           is_resolved = False\<rparr>]
   \<and> alerts (tasks_check_alerts example_service example_lib settings example_world
         (minutes 10) ''esp32_001'' (Fin (4 / 10)))
       = [example_alert, other_alert,
          \<lparr>timestamp = 600000000, device_id = ''esp32_001'', alert_type = ''spoiled'',
           ratio_value = Fin (4 / 10), phone_number = None, call_sid = None,
           is_resolved = False\<rparr>]"
proof -
  have h1: "example_alert \<in> set (alerts example_world)" by (simp add: example_world_def)
  have h2: "device_id example_alert = ''esp32_001''" by (simp add: example_alert_def)
  have h3: "alert_type example_alert = ''spoiled''" by (simp add: example_alert_def)
  have h4: "is_resolved example_alert = False" by (simp add: example_alert_def)
  have h5: "minutes 10 - minutes (if ''spoiled'' = ''spoiled'' then 30 else 60)
              \<le> timestamp example_alert"
    by (simp add: example_alert_def minutes_def)
  have h6: "fle (Fin (4 / 10)) (RATIO_WARNING settings)" by (simp add: settings_def)
  show ?thesis
    using h1 h2 h3 h4 h5 h6
      cooldown_suppresses_call_only [OF h1 h2 h3 h4 h5, of example_service example_lib settings
        "Fin (4 / 10)" "Some ''+15550100''"]
    by (simp add: example_world_def minutes_def)
qed

section \<open>Resolution by a fresh reading\<close>

text \<open>
  C2 says that every reading whose ratio is strictly above the fresh threshold resolves
  the device's alerts and creates none. Nothing keeps the warning threshold at or below
  the fresh one: with warning 0.9 and fresh 0.8 a ratio of 0.85 is above the fresh
  threshold, and the code creates a spoiled alert and resolves nothing.
\<close>

theorem fresh_reading_counterexample:
  "fgt (Fin (85 / 100)) (RATIO_FRESH swapped_settings)
   \<and> alerts (tasks_check_alerts example_service example_lib swapped_settings example_world
        (minutes 10) ''esp32_001'' (Fin (85 / 100)))
       = [example_alert, other_alert,
          \<lparr>timestamp = 600000000, device_id = ''esp32_001'', alert_type = ''spoiled'',
           ratio_value = Fin (85 / 100), phone_number = None, call_sid = None,
           is_resolved = False\<rparr>]
   \<and> is_resolved example_alert = False"
  by (simp add: tasks_check_alerts_def create_alert_def swapped_settings_def settings_def
      example_world_def example_alert_def fgt_def minutes_def Let_def)

text \<open>
  C2, as the code has it: with the thresholds in order (warning at most fresh), a reading
  whose ratio is strictly above the fresh threshold marks every alert of that device, of
  either kind, as resolved, leaves the alerts of other devices as they are, creates no
  alert and invokes no notifier; in the alert block of the scheduled task and of the
  dashboard alike, and in \<open>collect_device_data\<close> as a whole whenever the reading was
  normalized and stored.
\<close>

theorem fresh_reading_resolves:
  assumes "fle (RATIO_WARNING st) (RATIO_FRESH st)" and "fgt r (RATIO_FRESH st)"
  shows "alerts (tasks_check_alerts svc lib st w now dev r)
           = map (\<lambda>a. if device_id a = dev then a\<lparr>is_resolved := True\<rparr> else a) (alerts w)
       \<and> (\<forall>a \<in> set (alerts (tasks_check_alerts svc lib st w now dev r)).
             device_id a = dev \<longrightarrow> is_resolved a)
       \<and> length (alerts (tasks_check_alerts svc lib st w now dev r)) = length (alerts w)
       \<and> notifier_log (tasks_check_alerts svc lib st w now dev r) = notifier_log w
       \<and> app_check_alerts svc lib st w now alert_phone dev r
           = tasks_check_alerts svc lib st w now dev r
       \<and> (normalize_reading lib raw dev now = Inr n \<and> ratio n = r \<and> db_binds lib (status n)
            \<longrightarrow>
            fst (collect_device_data lib st w now (Inr raw) dev) = Success r
            \<and> alerts (snd (collect_device_data lib st w now (Inr raw) dev))
                = map (\<lambda>a. if device_id a = dev then a\<lparr>is_resolved := True\<rparr> else a)
                    (alerts w))"
proof -
  note t = tasks_check_alerts_fresh [OF assms]
  have m: "alerts (tasks_check_alerts svc' lib st w' now dev r)
           = map (\<lambda>a. if device_id a = dev then a\<lparr>is_resolved := True\<rparr> else a) (alerts w')"
    for svc' w'
    by (simp only: t resolve_all_map)
  have r: "\<forall>a \<in> set (alerts (tasks_check_alerts svc lib st w now dev r)).
             device_id a = dev \<longrightarrow> is_resolved a"
    unfolding m by (rule resolved_after_map)
  have l: "length (alerts (tasks_check_alerts svc lib st w now dev r)) = length (alerts w)"
    unfolding m by simp
  have n: "notifier_log (tasks_check_alerts svc lib st w now dev r) = notifier_log w"
    by (simp only: t resolve_alerts_other)
  have e: "app_check_alerts svc lib st w now alert_phone dev r
           = tasks_check_alerts svc lib st w now dev r"
    by (simp only: t)
  have c: "normalize_reading lib raw dev now = Inr n \<and> ratio n = r \<and> db_binds lib (status n)
            \<longrightarrow>
            fst (collect_device_data lib st w now (Inr raw) dev) = Success r
            \<and> alerts (snd (collect_device_data lib st w now (Inr raw) dev))
                = map (\<lambda>a. if device_id a = dev then a\<lparr>is_resolved := True\<rparr> else a)
                    (alerts w)"
    by (simp add: collect_device_data_def save_reading_def Let_def m)
  show ?thesis
    by (intro conjI) (fact m, fact r, fact l, fact n, fact e, fact c)
qed

theorem fresh_reading_resolves_witness:
  "fle (RATIO_WARNING settings) (RATIO_FRESH settings)
   \<and> fgt (Fin (9 / 10)) (RATIO_FRESH settings)
   \<and> alerts (tasks_check_alerts example_service example_lib settings example_world
        (minutes 10) ''esp32_001'' (Fin (9 / 10)))
       = [example_alert\<lparr>is_resolved := True\<rparr>, other_alert]
   \<and> alerts (snd (collect_device_data example_lib settings example_world (minutes 10)
        (Inr [''ratio'' \<mapsto> PyFloat (Fin (9 / 10))]) ''esp32_001''))
       = [example_alert\<lparr>is_resolved := True\<rparr>, other_alert]"
proof -
  have h1: "fle (RATIO_WARNING settings) (RATIO_FRESH settings)" by (simp add: settings_def)
  have h2: "fgt (Fin (9 / 10)) (RATIO_FRESH settings)" by (simp add: settings_def fgt_def)
  have h3: "normalize_reading example_lib [''ratio'' \<mapsto> PyFloat (Fin (9 / 10))] ''esp32_001''
              (minutes 10)
            = Inr \<lparr>timestamp = minutes 10, device_id = ''esp32_001'', ro = Fin 0, rs = Fin 0,
                   ratio = Fin (9 / 10), vout = Fin 0, status = PyStr ''''\<rparr>"
    by (simp add: normalize_reading_def dict_get_def safe_float_def)
  have h4: "db_binds example_lib (PyStr '''')" by (simp add: example_lib_def)
  show ?thesis
    using h1 h2 h4
      fresh_reading_resolves [OF h1 h2, of example_service example_lib example_world
        "minutes 10" "''esp32_001''" None "[''ratio'' \<mapsto> PyFloat (Fin (9 / 10))]"
        "\<lparr>timestamp = minutes 10, device_id = ''esp32_001'', ro = Fin 0, rs = Fin 0,
                   ratio = Fin (9 / 10), vout = Fin 0, status = PyStr ''''\<rparr>"]
    by (simp add: h3 example_world_def example_alert_def other_alert_def)
qed

section \<open>Notifier failure\<close>

text \<open>
  C3: whenever the notifier fails on a call of \<open>create_alert\<close> with a phone number (no
  client because the credentials are absent, an exception while encoding this call's
  context, or an exception of the Twilio client on this call's number and webhook
  address), \<open>create_alert\<close> still returns and stores the record with the same device id,
  kind, ratio and phone number; only \<open>call_sid\<close> is unset, which is the one field where
  it differs from the record any other service would have created. \<open>create_alert\<close> has
  no error result: the failure stays inside \<open>send_voice_alert\<close>.
\<close>

theorem notifier_failure_keeps_record:
  assumes "twilio_client svc = None
           \<or> isl (quote lib (''Food spoilage alert for device '' @ dev
                              @ ''. Current ratio is '' @ format_3f lib r @ ''.''))
           \<or> (\<exists>client encoded_context.
                 twilio_client svc = Some client
                 \<and> quote lib (''Food spoilage alert for device '' @ dev
                              @ ''. Current ratio is '' @ format_3f lib r @ ''.'')
                     = Inr encoded_context
                 \<and> isl (client p (TWILIO_PHONE_NUMBER st)
                          (WEBHOOK_URL st @ ''?context='' @ encoded_context)))"
  shows "fst (create_alert svc lib st w now dev atype r (Some p))
           = \<lparr>timestamp = now, device_id = dev, alert_type = atype, ratio_value = r,
              phone_number = Some p, call_sid = None, is_resolved = False\<rparr>
       \<and> alerts (snd (create_alert svc lib st w now dev atype r (Some p)))
           = alerts w @ [fst (create_alert svc lib st w now dev atype r (Some p))]
       \<and> readings (snd (create_alert svc lib st w now dev atype r (Some p))) = readings w
       \<and> fst (create_alert svc2 lib st w now dev atype r (Some p))\<lparr>call_sid := None\<rparr>
           = fst (create_alert svc lib st w now dev atype r (Some p))"
proof -
  let ?c = "''Food spoilage alert for device '' @ dev
              @ ''. Current ratio is '' @ format_3f lib r @ ''.''"
  have f: "fst (send_voice_alert svc lib st w p ?c dev r) = None"
    using assms
  proof (elim disjE exE conjE)
    assume "twilio_client svc = None"
    then show ?thesis by (simp add: send_voice_alert_def)
  next
    assume "isl (quote lib ?c)"
    then obtain e where "quote lib ?c = Inl e" by (cases "quote lib ?c") simp_all
    then show ?thesis by (simp add: send_voice_alert_def Let_def split: option.splits)
  next
    fix client encoded_context
    assume c: "twilio_client svc = Some client" "quote lib ?c = Inr encoded_context"
      and i: "isl (client p (TWILIO_PHONE_NUMBER st)
                    (WEBHOOK_URL st @ ''?context='' @ encoded_context))"
    obtain e where "client p (TWILIO_PHONE_NUMBER st)
                      (WEBHOOK_URL st @ ''?context='' @ encoded_context) = Inl e"
      using i
      by (cases "client p (TWILIO_PHONE_NUMBER st)
                   (WEBHOOK_URL st @ ''?context='' @ encoded_context)") simp_all
    then show ?thesis using c by (simp add: send_voice_alert_def Let_def)
  qed
  have 1: "fst (create_alert svc lib st w now dev atype r (Some p))
           = \<lparr>timestamp = now, device_id = dev, alert_type = atype, ratio_value = r,
              phone_number = Some p, call_sid = None, is_resolved = False\<rparr>"
    using f by (simp add: create_alert_def Let_def split_def)
  have 3: "readings (snd (create_alert svc lib st w now dev atype r (Some p))) = readings w"
    by (simp add: create_alert_def Let_def split_def send_voice_alert_world)
  have 4: "fst (create_alert svc2 lib st w now dev atype r (Some p))\<lparr>call_sid := None\<rparr>
           = fst (create_alert svc lib st w now dev atype r (Some p))"
    by (simp only: create_alert_fields 1)
  show ?thesis
    by (intro conjI) (fact 1, rule create_alert_appends, fact 3, fact 4)
qed

text \<open>
  The client of \<open>flaky_service\<close> raises for the number of this call alone: the record is
  stored without a \<open>call_sid\<close>, and the same call for another number carries one.
\<close>

theorem notifier_failure_keeps_record_witness:
  "twilio_client flaky_service
     = Some (\<lambda>to from url. if to = ''+15550100'' then Inl TwilioException else Inr ''CA02'')
   \<and> quote example_lib ''Food spoilage alert for device esp32_001. Current ratio is 0.400.''
       = Inr ''Food spoilage alert for device esp32_001. Current ratio is 0.400.''
   \<and> fst (create_alert flaky_service example_lib settings empty_world
        0 ''esp32_001'' ''spoiled'' (Fin (4 / 10)) (Some ''+15550100''))
       = \<lparr>timestamp = 0, device_id = ''esp32_001'', alert_type = ''spoiled'',
          ratio_value = Fin (4 / 10), phone_number = Some ''+15550100'', call_sid = None,
          is_resolved = False\<rparr>
   \<and> alerts (snd (create_alert flaky_service example_lib settings
        empty_world 0 ''esp32_001'' ''spoiled'' (Fin (4 / 10)) (Some ''+15550100'')))
       = [\<lparr>timestamp = 0, device_id = ''esp32_001'', alert_type = ''spoiled'',
           ratio_value = Fin (4 / 10), phone_number = Some ''+15550100'', call_sid = None,
           is_resolved = False\<rparr>]
   \<and> notifier_log (snd (create_alert flaky_service example_lib settings
        empty_world 0 ''esp32_001'' ''spoiled'' (Fin (4 / 10)) (Some ''+15550100'')))
       = [(''+15550100'', ''Food spoilage alert for device esp32_001. Current ratio is 0.400.'')]
   \<and> call_sid (fst (create_alert flaky_service example_lib settings empty_world
        0 ''esp32_001'' ''spoiled'' (Fin (4 / 10)) (Some ''+15550199''))) = Some ''CA02''"
proof -
  have h1: "twilio_client flaky_service
     = Some (\<lambda>to from url. if to = ''+15550100'' then Inl TwilioException else Inr ''CA02'')"
    by (simp add: flaky_service_def)
  have h2: "quote example_lib (''Food spoilage alert for device '' @ ''esp32_001''
              @ ''. Current ratio is '' @ format_3f example_lib (Fin (4 / 10)) @ ''.'')
            = Inr ''Food spoilage alert for device esp32_001. Current ratio is 0.400.''"
    by (simp add: example_lib_def)
  have h3: "isl ((\<lambda>to from url. if to = ''+15550100'' then Inl TwilioException else Inr ''CA02'')
              ''+15550100'' (TWILIO_PHONE_NUMBER settings)
              (WEBHOOK_URL settings @ ''?context=''
                 @ ''Food spoilage alert for device esp32_001. Current ratio is 0.400.''))"
    by simp
  have n: "notifier_log (snd (create_alert flaky_service example_lib settings
        empty_world 0 ''esp32_001'' ''spoiled'' (Fin (4 / 10)) (Some ''+15550100'')))
       = [(''+15550100'', ''Food spoilage alert for device esp32_001. Current ratio is 0.400.'')]"
    by (simp add: create_alert_def should_send_alert_def send_voice_alert_def Let_def
        flaky_service_def example_lib_def empty_world_def split_def)
  have s: "call_sid (fst (create_alert flaky_service example_lib settings empty_world
        0 ''esp32_001'' ''spoiled'' (Fin (4 / 10)) (Some ''+15550199''))) = Some ''CA02''"
    by (simp add: create_alert_def should_send_alert_def send_voice_alert_def Let_def
        flaky_service_def example_lib_def empty_world_def split_def)
  have q: "quote example_lib ''Food spoilage alert for device esp32_001. Current ratio is 0.400.''
       = Inr ''Food spoilage alert for device esp32_001. Current ratio is 0.400.''"
    by (simp add: example_lib_def)
  have d: "twilio_client flaky_service = None
           \<or> isl (quote example_lib (''Food spoilage alert for device '' @ ''esp32_001''
                              @ ''. Current ratio is '' @ format_3f example_lib (Fin (4 / 10))
                              @ ''.''))
           \<or> (\<exists>client encoded_context.
                 twilio_client flaky_service = Some client
                 \<and> quote example_lib (''Food spoilage alert for device '' @ ''esp32_001''
                              @ ''. Current ratio is '' @ format_3f example_lib (Fin (4 / 10))
                              @ ''.'')
                     = Inr encoded_context
                 \<and> isl (client ''+15550100'' (TWILIO_PHONE_NUMBER settings)
                          (WEBHOOK_URL settings @ ''?context='' @ encoded_context)))"
    using h1 h2 h3 by (intro disjI2 exI conjI)
  show ?thesis
    using h1 q n s
      notifier_failure_keeps_record [OF d, of empty_world 0 "''spoiled''" example_service]
    by (simp add: empty_world_def)
qed

section \<open>Classification\<close>

text \<open>
  C4 says that every reading falls in exactly one of three cases: ratio at most the
  warning threshold (spoiled), above it and at most the fresh threshold (warning), above
  the fresh threshold (fresh, the resolution path). A ratio that is not a number is in
  none of the three, and the code takes the resolution path for it.
\<close>

theorem classification_counterexample:
  "\<not> fle NaN (RATIO_WARNING settings)
   \<and> \<not> (flt (RATIO_WARNING settings) NaN \<and> fle NaN (RATIO_FRESH settings))
   \<and> \<not> fgt NaN (RATIO_FRESH settings)
   \<and> fst (collect_device_data example_lib settings example_world 0
        (Inr [''ratio'' \<mapsto> PyFloat NaN]) ''esp32_001'') = Success NaN
   \<and> alerts (snd (collect_device_data example_lib settings example_world 0
        (Inr [''ratio'' \<mapsto> PyFloat NaN]) ''esp32_001''))
       = [example_alert\<lparr>is_resolved := True\<rparr>, other_alert]"
  by (simp add: collect_device_data_def normalize_reading_def safe_float_def dict_get_def
      save_reading_def tasks_check_alerts_def resolve_alerts_def selected_def settings_def
      example_lib_def example_world_def example_alert_def other_alert_def fgt_def Let_def)

text \<open>
  C4, as the code has it: with the thresholds in order and a ratio that is not NaN, the
  three cases are exhaustive and exclusive, and each selects its branch: the spoiled
  alert, the warning alert, the resolution of the device's alerts. A NaN ratio, whatever
  the thresholds, is in none of the three cases and takes the resolution branch.
\<close>

theorem classification:
  assumes "fle (RATIO_WARNING st) (RATIO_FRESH st)" and "r \<noteq> NaN"
  shows "(fle r (RATIO_WARNING st) \<longrightarrow>
            tasks_check_alerts svc lib st w now dev r
              = snd (create_alert svc lib st w now dev ''spoiled'' r None)
          \<and> app_check_alerts svc lib st w now alert_phone dev r
              = (if truthy alert_phone \<and> should_send_alert w now dev ''spoiled''
                 then snd (create_alert svc lib st w now dev ''spoiled'' r alert_phone) else w))
       \<and> (flt (RATIO_WARNING st) r \<and> fle r (RATIO_FRESH st) \<longrightarrow>
            tasks_check_alerts svc lib st w now dev r
              = snd (create_alert svc lib st w now dev ''warning'' r None)
          \<and> app_check_alerts svc lib st w now alert_phone dev r
              = snd (create_alert svc lib st w now dev ''warning'' r None))
       \<and> (fgt r (RATIO_FRESH st) \<longrightarrow>
            tasks_check_alerts svc lib st w now dev r = resolve_alerts w dev None
          \<and> app_check_alerts svc lib st w now alert_phone dev r = resolve_alerts w dev None)
       \<and> (fle r (RATIO_WARNING st)
            \<or> (flt (RATIO_WARNING st) r \<and> fle r (RATIO_FRESH st))
            \<or> fgt r (RATIO_FRESH st))
       \<and> \<not> (fle r (RATIO_WARNING st) \<and> flt (RATIO_WARNING st) r)
       \<and> \<not> (fle r (RATIO_WARNING st) \<and> fgt r (RATIO_FRESH st))
       \<and> \<not> (fle r (RATIO_FRESH st) \<and> fgt r (RATIO_FRESH st))
       \<and> \<not> fle NaN (RATIO_WARNING st')
       \<and> \<not> (flt (RATIO_WARNING st') NaN \<and> fle NaN (RATIO_FRESH st'))
       \<and> \<not> fgt NaN (RATIO_FRESH st')
       \<and> tasks_check_alerts svc lib st' w now dev NaN = resolve_alerts w dev None
       \<and> app_check_alerts svc lib st' w now alert_phone dev NaN = resolve_alerts w dev None"
proof -
  have wn: "RATIO_WARNING st \<noteq> NaN" and fn: "RATIO_FRESH st \<noteq> NaN"
    using fle_not_NaN [OF assms(1)] by simp_all
  have x1: "\<not> (fle r (RATIO_WARNING st) \<and> flt (RATIO_WARNING st) r)"
    using flt_not_fle [of "RATIO_WARNING st" r] by auto
  have x3: "\<not> (fle r (RATIO_FRESH st) \<and> fgt r (RATIO_FRESH st))"
    using flt_not_fle [of "RATIO_FRESH st" r] by (auto simp: fgt_def)
  have x2: "\<not> (fle r (RATIO_WARNING st) \<and> fgt r (RATIO_FRESH st))"
    using x3 fle_trans [OF _ assms(1), of r] by auto
  have ex: "fle r (RATIO_WARNING st)
            \<or> (flt (RATIO_WARNING st) r \<and> fle r (RATIO_FRESH st))
            \<or> fgt r (RATIO_FRESH st)"
    using fle_total [OF assms(2) wn] fle_total [OF assms(2) fn] by (auto simp: fgt_def)
  have s: "fle r (RATIO_WARNING st) \<longrightarrow>
            tasks_check_alerts svc lib st w now dev r
              = snd (create_alert svc lib st w now dev ''spoiled'' r None)
          \<and> app_check_alerts svc lib st w now alert_phone dev r
              = (if truthy alert_phone \<and> should_send_alert w now dev ''spoiled''
                 then snd (create_alert svc lib st w now dev ''spoiled'' r alert_phone) else w)"
    by (simp add: tasks_check_alerts_def app_check_alerts_def)
  have wa: "flt (RATIO_WARNING st) r \<and> fle r (RATIO_FRESH st) \<longrightarrow>
            tasks_check_alerts svc lib st w now dev r
              = snd (create_alert svc lib st w now dev ''warning'' r None)
          \<and> app_check_alerts svc lib st w now alert_phone dev r
              = snd (create_alert svc lib st w now dev ''warning'' r None)"
    using x1 by (simp add: tasks_check_alerts_def app_check_alerts_def)
  have fr: "fgt r (RATIO_FRESH st) \<longrightarrow>
            tasks_check_alerts svc lib st w now dev r = resolve_alerts w dev None
          \<and> app_check_alerts svc lib st w now alert_phone dev r = resolve_alerts w dev None"
    using x2 x3 by (simp add: tasks_check_alerts_def app_check_alerts_def)
  have n1: "\<not> fle NaN (RATIO_WARNING st')" by simp
  have n2: "\<not> (flt (RATIO_WARNING st') NaN \<and> fle NaN (RATIO_FRESH st'))" by simp
  have n3: "\<not> fgt NaN (RATIO_FRESH st')"
    by (cases "RATIO_FRESH st'") (simp_all add: fgt_def)
  have n4: "tasks_check_alerts svc lib st' w now dev NaN = resolve_alerts w dev None"
    by (simp add: tasks_check_alerts_def)
  have n5: "app_check_alerts svc lib st' w now alert_phone dev NaN = resolve_alerts w dev None"
    by (simp add: app_check_alerts_def)
  show ?thesis
    by (intro conjI)
      (fact s, fact wa, fact fr, fact ex, fact x1, fact x2, fact x3,
        fact n1, fact n2, fact n3, fact n4, fact n5)
qed

theorem classification_witness:
  "fle (RATIO_WARNING settings) (RATIO_FRESH settings) \<and> Fin (6 / 10) \<noteq> NaN
   \<and> flt (RATIO_WARNING settings) (Fin (6 / 10)) \<and> fle (Fin (6 / 10)) (RATIO_FRESH settings)
   \<and> tasks_check_alerts example_service example_lib settings empty_world 0 ''esp32_001''
        (Fin (6 / 10))
       = snd (create_alert example_service example_lib settings empty_world 0 ''esp32_001''
               ''warning'' (Fin (6 / 10)) None)
   \<and> alerts (tasks_check_alerts example_service example_lib settings empty_world 0
        ''esp32_001'' (Fin (6 / 10)))
       = [\<lparr>timestamp = 0, device_id = ''esp32_001'', alert_type = ''warning'',
           ratio_value = Fin (6 / 10), phone_number = None, call_sid = None,
           is_resolved = False\<rparr>]"
proof -
  have h1: "fle (RATIO_WARNING settings) (RATIO_FRESH settings)" by (simp add: settings_def)
  have h2: "Fin (6 / 10) \<noteq> NaN" by simp
  have h3: "flt (RATIO_WARNING settings) (Fin (6 / 10))" by (simp add: settings_def)
  have h4: "fle (Fin (6 / 10)) (RATIO_FRESH settings)" by (simp add: settings_def)
  have c: "snd (create_alert example_service example_lib settings empty_world 0 ''esp32_001''
               ''warning'' (Fin (6 / 10)) None)
           = empty_world\<lparr>alerts := [\<lparr>timestamp = 0, device_id = ''esp32_001'',
               alert_type = ''warning'', ratio_value = Fin (6 / 10), phone_number = None,
               call_sid = None, is_resolved = False\<rparr>]\<rparr>"
    by (simp add: create_alert_def empty_world_def Let_def)
  show ?thesis
    using h1 h2 h3 h4 c
      classification [OF h1 h2, of example_service example_lib empty_world 0 "''esp32_001''" None]
    by simp
qed

section \<open>The ratio of a normalized reading\<close>

text \<open>
  C5 says that a ratio supplied by the raw mapping is used. A supplied ratio of
  \<open>0.0\<close> is not: with \<open>Ro > 0\<close> the normalizer replaces it by \<open>Rs / Ro\<close>.
\<close>

theorem normalize_reading_ratio_counterexample:
  "normalize_reading example_lib
     [''ratio'' \<mapsto> PyFloat (Fin 0), ''Ro'' \<mapsto> PyInt 500000, ''Rs'' \<mapsto> PyInt 250000]
     ''esp32_001'' 0
   = Inr \<lparr>timestamp = 0, device_id = ''esp32_001'', ro = Fin 500000, rs = Fin 250000,
          ratio = Fin (1 / 2), vout = Fin 0, status = PyStr ''''\<rparr>"
  by (simp add: normalize_reading_def dict_get_def safe_float_small_int round_overflow_small
      fgt_def safe_float_def [of example_lib "PyFloat (Fin 0)"])

text \<open>
  C5, as the code has it: when the four numeric fields coerce, the ratio is the coerced
  ratio field if that is not equal to \<open>0.0\<close>; otherwise (ratio missing, null, not
  coercible, or zero) it is \<open>Rs / Ro\<close> if \<open>Ro > 0\<close> and \<open>0.0\<close> if not. The two
  payloads of the claim give \<open>0.5\<close> and \<open>0.0\<close>, the second without a division.
\<close>

theorem normalize_reading_ratio:
  "(safe_float lib (dict_get raw ''Ro'' (PyFloat (Fin 0))) (Fin 0) = Inr ro'
      \<and> safe_float lib (dict_get raw ''Rs'' (PyFloat (Fin 0))) (Fin 0) = Inr rs'
      \<and> safe_float lib (dict_get raw ''ratio'' PyNone) (Fin 0) = Inr ratio0
      \<and> safe_float lib (dict_get raw ''Vout'' (PyFloat (Fin 0))) (Fin 0) = Inr vout'
    \<longrightarrow> (\<exists>rd. normalize_reading lib raw dev now = Inr rd
           \<and> (if feq ratio0 (Fin 0)
               then (if fgt ro' (Fin 0) then fdiv rs' ro' = Inr (ratio rd) else ratio rd = Fin 0)
               else ratio rd = ratio0)))
   \<and> normalize_reading lib [''Ro'' \<mapsto> PyInt 500000, ''Rs'' \<mapsto> PyInt 250000] dev now
       = Inr \<lparr>timestamp = now, device_id = dev, ro = Fin 500000, rs = Fin 250000,
              ratio = Fin (1 / 2), vout = Fin 0, status = PyStr ''''\<rparr>
   \<and> normalize_reading lib [''Ro'' \<mapsto> PyInt 0, ''Rs'' \<mapsto> PyInt 250000] dev now
       = Inr \<lparr>timestamp = now, device_id = dev, ro = Fin 0, rs = Fin 250000,
              ratio = Fin 0, vout = Fin 0, status = PyStr ''''\<rparr>"
proof (intro conjI impI)
  assume a: "safe_float lib (dict_get raw ''Ro'' (PyFloat (Fin 0))) (Fin 0) = Inr ro'
      \<and> safe_float lib (dict_get raw ''Rs'' (PyFloat (Fin 0))) (Fin 0) = Inr rs'
      \<and> safe_float lib (dict_get raw ''ratio'' PyNone) (Fin 0) = Inr ratio0
      \<and> safe_float lib (dict_get raw ''Vout'' (PyFloat (Fin 0))) (Fin 0) = Inr vout'"
  show "\<exists>rd. normalize_reading lib raw dev now = Inr rd
           \<and> (if feq ratio0 (Fin 0)
               then (if fgt ro' (Fin 0) then fdiv rs' ro' = Inr (ratio rd) else ratio rd = Fin 0)
               else ratio rd = ratio0)"
  proof (cases "feq ratio0 (Fin 0) \<and> fgt ro' (Fin 0)")
    case True
    then obtain q where q: "fdiv rs' ro' = Inr q" using fdiv_positive by blast
    then show ?thesis using a True by (simp add: normalize_reading_def)
  next
    case False
    then show ?thesis using a feq_zero [of ratio0] by (auto simp: normalize_reading_def)
  qed
next
  show "normalize_reading lib [''Ro'' \<mapsto> PyInt 500000, ''Rs'' \<mapsto> PyInt 250000] dev now
       = Inr \<lparr>timestamp = now, device_id = dev, ro = Fin 500000, rs = Fin 250000,
              ratio = Fin (1 / 2), vout = Fin 0, status = PyStr ''''\<rparr>"
    by (simp add: normalize_reading_def dict_get_def safe_float_small_int round_overflow_small
        fgt_def safe_float_def [of lib "PyFloat (Fin 0)"] safe_float_def [of lib PyNone])
next
  show "normalize_reading lib [''Ro'' \<mapsto> PyInt 0, ''Rs'' \<mapsto> PyInt 250000] dev now
       = Inr \<lparr>timestamp = now, device_id = dev, ro = Fin 0, rs = Fin 250000,
              ratio = Fin 0, vout = Fin 0, status = PyStr ''''\<rparr>"
    by (simp add: normalize_reading_def dict_get_def safe_float_small_int
        fgt_def safe_float_def [of lib "PyFloat (Fin 0)"] safe_float_def [of lib PyNone])
qed

theorem normalize_reading_ratio_witness:
  "safe_float example_lib (dict_get [''ratio'' \<mapsto> PyFloat (Fin (7 / 10)),
       ''Ro'' \<mapsto> PyInt 500000, ''Rs'' \<mapsto> PyInt 250000] ''ratio'' PyNone) (Fin 0)
     = Inr (Fin (7 / 10))
   \<and> (\<exists>rd. normalize_reading example_lib [''ratio'' \<mapsto> PyFloat (Fin (7 / 10)),
          ''Ro'' \<mapsto> PyInt 500000, ''Rs'' \<mapsto> PyInt 250000] ''esp32_001'' 0 = Inr rd
        \<and> ratio rd = Fin (7 / 10))"
proof -
  let ?raw = "[''ratio'' \<mapsto> PyFloat (Fin (7 / 10)),
       ''Ro'' \<mapsto> PyInt 500000, ''Rs'' \<mapsto> PyInt 250000]"
  have h1: "safe_float example_lib (dict_get ?raw ''Ro'' (PyFloat (Fin 0))) (Fin 0)
              = Inr (Fin 500000)"
    by (simp add: dict_get_def safe_float_small_int)
  have h2: "safe_float example_lib (dict_get ?raw ''Rs'' (PyFloat (Fin 0))) (Fin 0)
              = Inr (Fin 250000)"
    by (simp add: dict_get_def safe_float_small_int)
  have h3: "safe_float example_lib (dict_get ?raw ''ratio'' PyNone) (Fin 0) = Inr (Fin (7 / 10))"
    by (simp add: dict_get_def safe_float_def)
  have h4: "safe_float example_lib (dict_get ?raw ''Vout'' (PyFloat (Fin 0))) (Fin 0)
              = Inr (Fin 0)"
    by (simp add: dict_get_def safe_float_def)
  show ?thesis
    using h1 h2 h3 h4
      normalize_reading_ratio [of example_lib ?raw "Fin 500000" "Fin 250000" "Fin (7 / 10)"
        "Fin 0" "''esp32_001''" 0]
    by simp
qed

text \<open>
  C6 says that the ratio of a normalized reading is always finite and not negative.
  A supplied negative ratio is passed through.
\<close>

theorem normalize_reading_ratio_nonneg_counterexample:
  "normalize_reading example_lib [''ratio'' \<mapsto> PyFloat (Fin (- 1))] ''esp32_001'' 0
     = Inr \<lparr>timestamp = 0, device_id = ''esp32_001'', ro = Fin 0, rs = Fin 0,
            ratio = Fin (- 1), vout = Fin 0, status = PyStr ''''\<rparr>
   \<and> \<not> finite_nonneg (Fin (- 1))"
  by (simp add: normalize_reading_def dict_get_def safe_float_def finite_nonneg_def)

text \<open>
  C6, as the code has it: when normalization returns and the ratio and \<open>Rs\<close> fields
  coerce to finite numbers that are not negative, the ratio of the reading is finite
  and not negative, unless the quotient \<open>Rs / Ro\<close> is beyond the double range, where it
  is plus infinity.
\<close>

theorem normalize_reading_ratio_nonneg:
  assumes "normalize_reading lib raw dev now = Inr rd"
    and "safe_float lib (dict_get raw ''ratio'' PyNone) (Fin 0) = Inr ratio0"
    and "finite_nonneg ratio0"
    and "safe_float lib (dict_get raw ''Rs'' (PyFloat (Fin 0))) (Fin 0) = Inr rs'"
    and "finite_nonneg rs'"
  shows "finite_nonneg (ratio rd)
       \<or> (ratio rd = PInf
          \<and> (\<exists>a b. rs rd = Fin a \<and> ro rd = Fin b \<and> 0 < b \<and> float_overflow_bound \<le> a / b))"
proof -
  obtain ro' where ro': "safe_float lib (dict_get raw ''Ro'' (PyFloat (Fin 0))) (Fin 0) = Inr ro'"
    using assms(1) by (auto simp: normalize_reading_def split: sum.splits)
  obtain a where a: "rs' = Fin a" "0 \<le> a"
    using assms(5) by (cases rs') (auto simp: finite_nonneg_def)
  have rd: "ro rd = ro'" "rs rd = rs'"
    and q: "(if feq ratio0 (Fin 0) \<and> fgt ro' (Fin 0) then fdiv rs' ro' else Inr ratio0)
              = Inr (ratio rd)"
    using assms(1,2,4) ro' by (auto simp: normalize_reading_def split: sum.splits)
  show ?thesis
  proof (cases "feq ratio0 (Fin 0) \<and> fgt ro' (Fin 0)")
    case False
    then have "ratio rd = ratio0" using q by auto
    then show ?thesis using assms(3) by simp
  next
    case True
    then have d: "fdiv (Fin a) ro' = Inr (ratio rd)" using q a by simp
    show ?thesis
    proof (cases ro')
      case (Fin b)
      then have b: "0 < b" using True by (simp add: fgt_def)
      then have nn: "0 \<le> a / b" using a(2) by simp
      have "ratio rd = round_overflow (a / b)" using d Fin b by simp
      then show ?thesis
        using nn float_overflow_bound_pos rd a(1) Fin b
        by (auto simp: round_overflow_def finite_nonneg_def)
    next
      case PInf
      then have "ratio rd = Fin 0" using d by simp
      then show ?thesis by (simp add: finite_nonneg_def)
    next
      case NInf
      then show ?thesis using True by (simp add: fgt_def)
    next
      case NaN
      then show ?thesis using True by (simp add: fgt_def)
    qed
  qed
qed

theorem normalize_reading_ratio_nonneg_witness:
  "normalize_reading example_lib [''Ro'' \<mapsto> PyInt 500000, ''Rs'' \<mapsto> PyInt 250000]
       ''esp32_001'' 0
     = Inr \<lparr>timestamp = 0, device_id = ''esp32_001'', ro = Fin 500000, rs = Fin 250000,
            ratio = Fin (1 / 2), vout = Fin 0, status = PyStr ''''\<rparr>
   \<and> finite_nonneg (Fin 0) \<and> finite_nonneg (Fin 250000)
   \<and> finite_nonneg (ratio \<lparr>timestamp = 0, device_id = ''esp32_001'', ro = Fin 500000,
        rs = Fin 250000, ratio = Fin (1 / 2), vout = Fin 0, status = PyStr ''''\<rparr>)"
proof -
  let ?raw = "[''Ro'' \<mapsto> PyInt 500000, ''Rs'' \<mapsto> PyInt 250000]"
  have h1: "normalize_reading example_lib ?raw ''esp32_001'' 0
     = Inr \<lparr>timestamp = 0, device_id = ''esp32_001'', ro = Fin 500000, rs = Fin 250000,
            ratio = Fin (1 / 2), vout = Fin 0, status = PyStr ''''\<rparr>"
    by (simp add: normalize_reading_def dict_get_def safe_float_small_int round_overflow_small
        fgt_def safe_float_def [of example_lib "PyFloat (Fin 0)"]
        safe_float_def [of example_lib PyNone])
  have h2: "safe_float example_lib (dict_get ?raw ''ratio'' PyNone) (Fin 0) = Inr (Fin 0)"
    by (simp add: dict_get_def safe_float_def)
  have h3: "finite_nonneg (Fin 0)" by (simp add: finite_nonneg_def)
  have h4: "safe_float example_lib (dict_get ?raw ''Rs'' (PyFloat (Fin 0))) (Fin 0)
              = Inr (Fin 250000)"
    by (simp add: dict_get_def safe_float_small_int)
  have h5: "finite_nonneg (Fin 250000)" by (simp add: finite_nonneg_def)
  show ?thesis
    using h1 h3 h5 normalize_reading_ratio_nonneg [OF h1 h2 h3 h4 h5]
    by simp
qed

section \<open>Totality of the normalizer\<close>

text \<open>
  C7: the normalizer is claimed to return a reading for every raw mapping. An integer
  field beyond the double range makes \<open>float\<close> raise \<open>OverflowError\<close>, which
  \<open>safe_float\<close> does not catch: on the payload \<open>{"Ro": 10^400}\<close> the normalizer
  raises.
\<close>

theorem normalize_reading_overflow:
  "normalize_reading lib [''Ro'' \<mapsto> PyInt (10 ^ 400)] dev now = Inl OverflowError"
  by (simp add: normalize_reading_def safe_float_def dict_get_def float_overflow_bound_def)

section \<open>No recipient, no notification\<close>

text \<open>
  C8: without a phone number (\<open>None\<close> or the empty string) the notifier is never
  invoked: not by \<open>create_alert\<close>, not by the dashboard, and not by the scheduled task,
  which passes no phone number at all.
\<close>

theorem no_recipient_no_notifier:
  assumes "\<not> truthy phone"
  shows "notifier_log (snd (create_alert svc lib st w now dev atype r phone)) = notifier_log w
       \<and> call_sid (fst (create_alert svc lib st w now dev atype r phone)) = None
       \<and> notifier_log (app_check_alerts svc lib st w now phone dev r) = notifier_log w
       \<and> notifier_log (snd (process_reading svc lib st w now phone raw dev)) = notifier_log w
       \<and> notifier_log (tasks_check_alerts svc lib st w now dev r) = notifier_log w
       \<and> notifier_log (snd (collect_device_data lib st w now fetched dev)) = notifier_log w"
proof -
  have n: "\<not> truthy None" by (simp add: truthy_def)
  have c1: "notifier_log (snd (create_alert svc lib st w now dev atype r phone)) = notifier_log w"
    using assms by (simp add: create_alert_no_phone)
  have c2: "call_sid (fst (create_alert svc lib st w now dev atype r phone)) = None"
    using assms by (simp add: create_alert_no_phone)
  have t: "notifier_log (tasks_check_alerts svc' lib st w' now dev r') = notifier_log w'"
    for svc' w' r'
    by (simp add: tasks_check_alerts_def create_alert_no_phone [OF n] resolve_alerts_other)
  have a: "notifier_log (app_check_alerts svc lib st w' now phone dev r') = notifier_log w'"
    for w' r'
    using assms
    by (simp add: app_check_alerts_def create_alert_no_phone [OF n] resolve_alerts_other)
  have p: "notifier_log (snd (process_reading svc lib st w now phone raw dev)) = notifier_log w"
    by (simp add: process_reading_def Let_def split_def a save_reading_other split: sum.splits)
  have d: "notifier_log (snd (collect_device_data lib st w now fetched dev)) = notifier_log w"
    by (simp add: collect_device_data_def Let_def split_def t save_reading_other split: sum.splits)
  show ?thesis
    by (intro conjI) (fact c1, fact c2, rule a, fact p, rule t, fact d)
qed

theorem no_recipient_no_notifier_witness:
  "\<not> truthy (Some '''')
   \<and> notifier_log (app_check_alerts example_service example_lib settings empty_world 0
        (Some '''') ''esp32_001'' (Fin (4 / 10))) = []
   \<and> notifier_log (snd (collect_device_data example_lib settings empty_world 0
        (Inr [''ratio'' \<mapsto> PyFloat (Fin (4 / 10))]) ''esp32_001'')) = []"
proof -
  have h: "\<not> truthy (Some '''')" by (simp add: truthy_def)
  show ?thesis
    using h
      no_recipient_no_notifier [OF h, of example_service example_lib settings empty_world 0
        "''esp32_001''" "''spoiled''" "Fin (4 / 10)" "[''ratio'' \<mapsto> PyFloat (Fin (4 / 10))]"
        "Inr [''ratio'' \<mapsto> PyFloat (Fin (4 / 10))]"]
    by (simp add: empty_world_def)
qed

section \<open>Idempotence of resolution\<close>

text \<open>
  C9: resolving alerts is idempotent. For every device id and optional kind, resolving
  twice in succession leaves the same state as resolving once.
\<close>

theorem resolve_alerts_idempotent:
  "resolve_alerts (resolve_alerts w dev typ) dev typ = resolve_alerts w dev typ"
  by (simp add: resolve_alerts_def selected_def)

section \<open>The flag of a stored reading\<close>

text \<open>
  C10: every reading that \<open>save_reading\<close> stores carries \<open>is_alert\<close> exactly when its
  ratio is at most the warning threshold; a ratio above the warning threshold (the
  warning band included) is not flagged. A reading is stored exactly when the driver
  binds its status.
\<close>

theorem save_reading_flag:
  "(save_reading lib st w rd = Inr (reading, w') \<longrightarrow>
      is_alert reading = fle (ratio rd) (RATIO_WARNING st)
      \<and> ratio reading = ratio rd
      \<and> readings w' = readings w @ [reading]
      \<and> (flt (RATIO_WARNING st) (ratio rd) \<longrightarrow> \<not> is_alert reading))
   \<and> (db_binds lib (status rd) \<longrightarrow>
        (\<exists>stored w1. save_reading lib st w rd = Inr (stored, w1)))
   \<and> (\<not> db_binds lib (status rd) \<longrightarrow> save_reading lib st w rd = Inl SQLAlchemyError)"
proof (intro conjI impI)
  assume a: "save_reading lib st w rd = Inr (reading, w')"
  then have b: "db_binds lib (status rd)"
    by (auto simp: save_reading_def Let_def split: if_splits)
  from a b show "is_alert reading = fle (ratio rd) (RATIO_WARNING st)"
    by (auto simp: save_reading_def Let_def)
  from a b show "ratio reading = ratio rd"
    by (auto simp: save_reading_def Let_def)
  from a b show "readings w' = readings w @ [reading]"
    by (auto simp: save_reading_def Let_def)
  assume "flt (RATIO_WARNING st) (ratio rd)"
  then have "\<not> fle (ratio rd) (RATIO_WARNING st)" by (rule flt_not_fle)
  with a b show "\<not> is_alert reading"
    by (auto simp: save_reading_def Let_def)
next
  assume "db_binds lib (status rd)"
  then show "\<exists>stored w1. save_reading lib st w rd = Inr (stored, w1)"
    by (simp add: save_reading_def Let_def)
next
  assume "\<not> db_binds lib (status rd)"
  then show "save_reading lib st w rd = Inl SQLAlchemyError"
    by (simp add: save_reading_def Let_def)
qed

theorem save_reading_flag_witness:
  "flt (RATIO_WARNING settings) (Fin (6 / 10))
   \<and> save_reading example_lib settings empty_world
        \<lparr>timestamp = 0, device_id = ''esp32_001'', ro = Fin 500000, rs = Fin 300000,
         ratio = Fin (6 / 10), vout = Fin 0, status = PyStr ''''\<rparr>
       = Inr (\<lparr>timestamp = 0, device_id = ''esp32_001'', ro = Fin 500000, rs = Fin 300000,
               ratio = Fin (6 / 10), vout = Fin 0, status = PyStr '''', is_alert = False\<rparr>,
              \<lparr>alerts = [],
               readings = [\<lparr>timestamp = 0, device_id = ''esp32_001'', ro = Fin 500000,
                 rs = Fin 300000, ratio = Fin (6 / 10), vout = Fin 0, status = PyStr '''',
                 is_alert = False\<rparr>],
               notifier_log = []\<rparr>)
   \<and> is_alert \<lparr>timestamp = 0, device_id = ''esp32_001'', ro = Fin 500000, rs = Fin 300000,
         ratio = Fin (6 / 10), vout = Fin 0, status = PyStr '''', is_alert = False\<rparr>
       = fle (Fin (6 / 10)) (RATIO_WARNING settings)
   \<and> save_reading example_lib settings empty_world
        \<lparr>timestamp = 0, device_id = ''esp32_001'', ro = Fin 500000, rs = Fin 250000,
         ratio = Fin (5 / 10), vout = Fin 0, status = PyStr ''''\<rparr>
       = Inr (\<lparr>timestamp = 0, device_id = ''esp32_001'', ro = Fin 500000, rs = Fin 250000,
               ratio = Fin (5 / 10), vout = Fin 0, status = PyStr '''', is_alert = True\<rparr>,
              \<lparr>alerts = [],
               readings = [\<lparr>timestamp = 0, device_id = ''esp32_001'', ro = Fin 500000,
                 rs = Fin 250000, ratio = Fin (5 / 10), vout = Fin 0, status = PyStr '''',
                 is_alert = True\<rparr>],
               notifier_log = []\<rparr>)"
proof -
  let ?rd = "\<lparr>timestamp = 0, device_id = ''esp32_001'', ro = Fin 500000, rs = Fin 300000,
         ratio = Fin (6 / 10), vout = Fin 0, status = PyStr ''''\<rparr>"
  let ?row = "\<lparr>timestamp = 0, device_id = ''esp32_001'', ro = Fin 500000, rs = Fin 300000,
               ratio = Fin (6 / 10), vout = Fin 0, status = PyStr '''', is_alert = False\<rparr>"
  have h1: "flt (RATIO_WARNING settings) (Fin (6 / 10))" by (simp add: settings_def)
  have h2: "save_reading example_lib settings empty_world ?rd
              = Inr (?row, \<lparr>alerts = [], readings = [?row], notifier_log = []\<rparr>)"
    by (simp add: save_reading_def Let_def settings_def example_lib_def empty_world_def)
  have h3: "save_reading example_lib settings empty_world
        \<lparr>timestamp = 0, device_id = ''esp32_001'', ro = Fin 500000, rs = Fin 250000,
         ratio = Fin (5 / 10), vout = Fin 0, status = PyStr ''''\<rparr>
       = Inr (\<lparr>timestamp = 0, device_id = ''esp32_001'', ro = Fin 500000, rs = Fin 250000,
               ratio = Fin (5 / 10), vout = Fin 0, status = PyStr '''', is_alert = True\<rparr>,
              \<lparr>alerts = [],
               readings = [\<lparr>timestamp = 0, device_id = ''esp32_001'', ro = Fin 500000,
                 rs = Fin 250000, ratio = Fin (5 / 10), vout = Fin 0, status = PyStr '''',
                 is_alert = True\<rparr>],
               notifier_log = []\<rparr>)"
    by (simp add: save_reading_def Let_def settings_def example_lib_def empty_world_def)
  show ?thesis
    using h1 h2 h3
      save_reading_flag [of example_lib settings empty_world ?rd ?row
        "\<lparr>alerts = [], readings = [?row], notifier_log = []\<rparr>"]
    by simp
qed

end
